theory Spec2Isabelle
  imports Main
begin

section \<open>Python values, strings and dictionaries\<close>

text \<open>
  The client passes dynamically typed values around (query parameters, header values,
  JSON bodies). \<open>VFloat s\<close> is a float and \<open>VObj s\<close> any other object; each is
  identified with the text that \<open>str()\<close> gives for it, the only thing the client
  ever asks of such a value.
\<close>

datatype pyval = VNone | VBool bool | VInt int | VFloat string | VStr string | VObj string

text \<open>Decimal rendering of integers, as \<open>str(n)\<close> does.\<close>

definition digit_char :: "nat \<Rightarrow> char" where
  "digit_char n = char_of (48 + n)"

fun str_of_nat :: "nat \<Rightarrow> string" where
  "str_of_nat n = (if n < 10 then [digit_char n] else str_of_nat (n div 10) @ [digit_char (n mod 10)])"

declare str_of_nat.simps [simp del]

definition str_of_int :: "int \<Rightarrow> string" where
  "str_of_int i = (if i < 0 then CHR ''-'' # str_of_nat (nat (- i)) else str_of_nat (nat i))"

text \<open>\<open>str(v)\<close>; formatting a value in an f-string with no format spec gives the same text.\<close>

fun py_str :: "pyval \<Rightarrow> string" where
  "py_str VNone = ''None''"
| "py_str (VBool b) = (if b then ''True'' else ''False'')"
| "py_str (VInt i) = str_of_int i"
| "py_str (VFloat s) = s"
| "py_str (VStr s) = s"
| "py_str (VObj s) = s"

text \<open>\<open>isinstance(v, str)\<close>\<close>

fun is_str :: "pyval \<Rightarrow> bool" where
  "is_str (VStr _) = True"
| "is_str _ = False"

text \<open>\<open>isinstance(v, (str, float, int))\<close>: \<open>bool\<close> is a subclass of \<open>int\<close> in Python.\<close>

fun is_str_float_int :: "pyval \<Rightarrow> bool" where
  "is_str_float_int (VStr _) = True"
| "is_str_float_int (VFloat _) = True"
| "is_str_float_int (VInt _) = True"
| "is_str_float_int (VBool _) = True"
| "is_str_float_int _ = False"

text \<open>
  A \<open>dict\<close> is an association list in insertion order. \<open>dict_set\<close> is
  \<open>d[k] = v\<close> (an existing key keeps its place, a new one goes last), \<open>dict_del\<close> is
  \<open>del d[k]\<close>, \<open>dict_update\<close> is \<open>d.update(other)\<close>.
\<close>

type_synonym 'v dict = "(string \<times> 'v) list"

primrec dict_set :: "string \<Rightarrow> 'v \<Rightarrow> 'v dict \<Rightarrow> 'v dict" where
  "dict_set k v [] = [(k, v)]"
| "dict_set k v (p # ps) = (if fst p = k then (k, v) # ps else p # dict_set k v ps)"

definition dict_del :: "string \<Rightarrow> 'v dict \<Rightarrow> 'v dict" where
  "dict_del k d = filter (\<lambda>p. fst p \<noteq> k) d"

definition dict_update :: "'v dict \<Rightarrow> 'v dict \<Rightarrow> 'v dict" where
  "dict_update d other = fold (\<lambda>p acc. dict_set (fst p) (snd p) acc) other d"

definition dict_get :: "'v dict \<Rightarrow> string \<Rightarrow> 'v option" where
  "dict_get d k = map_of d k"

text \<open>\<open>sep.join(xs)\<close>\<close>

fun join :: "string \<Rightarrow> string list \<Rightarrow> string" where
  "join sep [] = []"
| "join sep [x] = x"
| "join sep (x # y # ys) = x @ sep @ join sep (y # ys)"

section \<open>Query parameter encoding: \<open>LearnifyAPI.init_params\<close>\<close>

text \<open>The lookup table \<open>boolean = {True: "true", False: "false"}\<close>.\<close>

definition boolean :: "bool \<Rightarrow> string" where
  "boolean b = (if b then ''true'' else ''false'')"

text \<open>
  The value expression of the inner dict comprehension: \<open>Y\<close> itself when it is an
  instance of \<open>(str, float, int)\<close>, else \<open>boolean[Y]\<close> for a bool, else
  \<open>"null"\<close> for \<open>None\<close>, else \<open>str(Y)\<close>. The tests are made in the source's order.
\<close>

definition render_param :: "pyval \<Rightarrow> pyval" where
  "render_param Y =
     (if is_str_float_int Y then Y
      else (case Y of
              VBool b \<Rightarrow> VStr (boolean b)
            | VNone \<Rightarrow> VStr ''null''
            | _ \<Rightarrow> VStr (py_str Y)))"

text \<open>The inner comprehension builds a new dict, the outer one formats \<open>f"{X}={Y}"\<close>.\<close>

definition rendered_params :: "pyval dict \<Rightarrow> pyval dict" where
  "rendered_params params = fold (\<lambda>p acc. dict_set (fst p) (render_param (snd p)) acc) params []"

definition init_params :: "string \<Rightarrow> pyval dict \<Rightarrow> string" where
  "init_params url params =
     (if params \<noteq> []
      then url @ ''?'' @ join ''&'' (map (\<lambda>p. fst p @ ''='' @ py_str (snd p)) (rendered_params params))
      else url)"

section \<open>JSON values, errors and results\<close>

text \<open>
  A decoded JSON document. \<open>JFloat s\<close> is a number that is not an integer, kept as
  its literal.
\<close>

datatype json = JNull | JBool bool | JInt int | JFloat string | JStr string
  | JArr "json list" | JObj "(string \<times> json) list"

text \<open>
  The message of an \<open>APIError\<close> is
  \<open>json_response.get("description", str(json_response))\<close>: the value stored under
  the key (of whatever JSON type), or the string form of the whole document.
\<close>

datatype message = Description json | Str_of json

text \<open>
  Every exception the client raises or lets through. \<open>JSONDecodeError\<close> and
  \<open>ContentTypeError\<close> are the two that \<open>response.json()\<close> raises on a body that
  is not JSON or a response without a JSON content type; \<open>ValidationError\<close> is
  pydantic's; \<open>UnboundLocalError\<close> is Python's, for a local variable read before
  any assignment.
\<close>

datatype error =
    ValueError string
  | RuntimeError string
  | APIError int message
  | UnboundLocalError string
  | JSONDecodeError
  | ContentTypeError
  | ValidationError

section \<open>The client and header construction: \<open>LearnifyAPI.headers\<close>\<close>

text \<open>
  What the session is asked to send: \<open>session.request(method=, url=, headers=, json=)\<close>.
\<close>

record http_request =
  rq_method :: string
  rq_url :: string
  rq_headers :: "pyval dict"
  rq_json :: "pyval dict option"

text \<open>
  The \<open>aiohttp.ClientSession\<close>, as a spy transport: it records the requests dispatched
  through it, oldest first.
\<close>

record session =
  dispatched :: "http_request list"

record client =
  token :: string
  base_url :: string
  session :: "session option"

text \<open>\<open>s.rstrip("/")\<close>\<close>

definition rstrip_slash :: "string \<Rightarrow> string" where
  "rstrip_slash s = rev (dropWhile (\<lambda>c. c = CHR ''/'') (rev s))"

text \<open>\<open>__init__\<close>, \<open>__aenter__\<close> and \<open>__aexit__\<close>\<close>

definition LearnifyAPI :: "string \<Rightarrow> string \<Rightarrow> client" where
  "LearnifyAPI tok url = \<lparr>token = tok, base_url = rstrip_slash url, session = None\<rparr>"

definition aenter :: "client \<Rightarrow> client" where
  "aenter c = c\<lparr>session := Some \<lparr>dispatched = []\<rparr>\<rparr>"

definition aexit :: "client \<Rightarrow> client" where
  "aexit c = (case session c of None \<Rightarrow> c | Some _ \<Rightarrow> c\<lparr>session := None\<rparr>)"

text \<open>
  One turn of the loop over \<open>custom_headers.copy().items()\<close>: the entry is read from
  the copy, the caller's dict \<open>d\<close> is changed.
\<close>

definition clean_step :: "string \<times> pyval \<Rightarrow> pyval dict \<Rightarrow> pyval dict" where
  "clean_step p d =
     (if snd p = VNone then dict_del (fst p) d
      else if \<not> is_str (snd p) then dict_set (fst p) (VStr (py_str (snd p))) d
      else d)"

text \<open>
  The caller's dict after the first block of \<open>headers\<close>. \<open>None\<close> and the empty
  dict are falsy and are left alone.
\<close>

definition clean_custom :: "pyval dict option \<Rightarrow> pyval dict option" where
  "clean_custom custom_headers =
     (case custom_headers of
        None \<Rightarrow> None
      | Some d \<Rightarrow> if d \<noteq> [] then Some (fold clean_step d d) else Some d)"

text \<open>
  The cleaning as the specification words it, to be compared with the loop: every entry
  whose value is \<open>None\<close> is dropped, every other value is replaced by its string form
  (a string is its own string form), and the order of the entries is kept.
\<close>

definition cleaned :: "pyval dict \<Rightarrow> pyval dict" where
  "cleaned d = map (\<lambda>p. (fst p, VStr (py_str (snd p)))) (filter (\<lambda>p. snd p \<noteq> VNone) d)"

definition HEADERS :: "pyval dict" where
  "HEADERS =
     [(''Content-Type'', VStr ''application/json''),
      (''Accept'', VStr ''application/json, text/plain, */*''),
      (''Accept-Language'', VStr ''ru-RU,ru;q=0.8,en-US;q=0.5,en;q=0.3''),
      (''Accept-Encoding'', VStr ''gzip, deflate, br''),
      (''Connection'', VStr ''keep-alive'')]"

text \<open>\<open>custom_headers or {}\<close>\<close>

definition or_empty :: "pyval dict option \<Rightarrow> pyval dict" where
  "or_empty d = (case d of None \<Rightarrow> [] | Some x \<Rightarrow> x)"

text \<open>
  \<open>headers\<close> returns the header dict or raises, and leaves the caller's
  \<open>custom_headers\<close> object in the state of the second component. The cleaning comes
  first in the source, so it has happened also when the token check raises.
\<close>

definition headers :: "client \<Rightarrow> bool \<Rightarrow> pyval dict option \<Rightarrow> (error + pyval dict) \<times> pyval dict option" where
  "headers self require_token custom_headers =
     (let custom' = clean_custom custom_headers in
      if token self = [] \<and> require_token then (Inl (ValueError ''Token is required!''), custom')
      else if require_token
        then (Inr (dict_update (dict_update HEADERS [(''Authorization'', VStr (''Bearer '' @ token self))])
                     (or_empty custom')), custom')
        else (Inr (dict_update HEADERS (or_empty custom')), custom'))"

section \<open>Responses and the status check: \<open>LearnifyAPI._check_response\<close>\<close>

text \<open>
  The \<open>aiohttp.ClientResponse\<close> as the client sees it: its status, what
  \<open>await response.text()\<close> gives and what \<open>await response.json()\<close> gives or raises.
\<close>

record response =
  status :: int
  raw_text :: string
  json_result :: "error + json"

text \<open>
  The \<open>except\<close> clause catches \<open>JSONDecodeError\<close> and \<open>ContentTypeError\<close> only,
  and its handler reads \<open>json_response\<close>, which the failed assignment in the
  \<open>try\<close> block never bound: Python raises \<open>UnboundLocalError\<close> there, before the
  \<open>raise APIError\<close> of the handler is reached. Any other exception of
  \<open>response.json()\<close> passes through. A decoded body that is not a dict raises nothing.
\<close>

definition check_response :: "response \<Rightarrow> error + unit" where
  "check_response r =
     (if status r \<ge> 400 then
        (case json_result r of
           Inr json_response \<Rightarrow>
             (case json_response of
                JObj d \<Rightarrow>
                  Inl (APIError (status r)
                        (case dict_get d ''description'' of
                           Some v \<Rightarrow> Description v
                         | None \<Rightarrow> Str_of json_response))
              | _ \<Rightarrow> Inr ())
         | Inl e \<Rightarrow>
             if e = JSONDecodeError \<or> e = ContentTypeError
             then Inl (UnboundLocalError ''json_response'')
             else Inl e)
      else Inr ())"

section \<open>Schemas and decoding: \<open>Book\<close>, \<open>User\<close>, \<open>GdzAnswer\<close>, \<open>parse_list_models\<close>\<close>

text \<open>
  Modelled from the spec: \<open>DT\<close> of \<open>learnifyapi.types.model\<close> is not among the
  sources; the spec calls the two fields of that type timestamps. It is kept as text.
\<close>

type_synonym DT = string

record user =
  u_id :: int
  u_user_id :: int
  u_payed_at :: "DT option"
  u_expires_at :: "DT option"
  u_is_active :: bool
  u_plan_type :: string

record book =
  b_id :: int
  b_user_id :: int
  b_subject_id :: "int option"
  b_subject_name :: "string option"
  b_url :: string
  b_search_by :: string

record gdz_solution =
  s_page_number :: int
  s_answer_url :: string
  s_image_urls :: "json list"

record gdz_answer =
  a_user_id :: "int option"
  a_book_id :: "int option"
  a_subject_id :: "int option"
  a_subject_name :: "string option"
  a_book_url :: string
  a_task_text :: string
  a_solutions :: "gdz_solution list"

datatype model = User | Book | GdzAnswer

datatype inst = UserInst user | BookInst book | GdzAnswerInst gdz_answer

text \<open>
  pydantic is a library and the base class \<open>Type\<close> of the schemas is not among the
  sources, so the reader of JSON text and the validation of one JSON value against each
  schema are parameters: \<open>None\<close> is a \<open>ValidationError\<close>.
\<close>

record pydantic =
  from_json :: "string \<Rightarrow> json option"
  validate_user :: "json \<Rightarrow> user option"
  validate_book :: "json \<Rightarrow> book option"
  validate_answer :: "json \<Rightarrow> gdz_answer option"

text \<open>What a call of the client returns.\<close>

datatype pyobj = PyNone | PyResponse response | PyJson json | PyText string
  | PyList "pyobj list" | PyInst inst

definition validate :: "pydantic \<Rightarrow> model \<Rightarrow> json \<Rightarrow> inst option" where
  "validate P m j =
     (case m of
        User \<Rightarrow> map_option UserInst (validate_user P j)
      | Book \<Rightarrow> map_option BookInst (validate_book P j)
      | GdzAnswer \<Rightarrow> map_option GdzAnswerInst (validate_answer P j))"

text \<open>\<open>model.model_validate_json(raw_text)\<close>\<close>

definition model_validate_json :: "pydantic \<Rightarrow> model \<Rightarrow> string \<Rightarrow> error + pyobj" where
  "model_validate_json P m s =
     (case from_json P s of
        None \<Rightarrow> Inl ValidationError
      | Some j \<Rightarrow> (case validate P m j of None \<Rightarrow> Inl ValidationError | Some x \<Rightarrow> Inr (PyInst x)))"

text \<open>
  One element of \<open>list[model]\<close>. \<open>request\<close> passes \<open>model=None\<close> on when the
  caller gave no schema; the element type \<open>None\<close> admits \<open>null\<close> only.
\<close>

definition validate_elem :: "pydantic \<Rightarrow> model option \<Rightarrow> json \<Rightarrow> pyobj option" where
  "validate_elem P m j =
     (case m of
        None \<Rightarrow> (if j = JNull then Some PyNone else None)
      | Some m' \<Rightarrow> map_option PyInst (validate P m' j))"

text \<open>A list validates element by element, in order, and fails as a whole.\<close>

fun validate_list :: "(json \<Rightarrow> pyobj option) \<Rightarrow> json list \<Rightarrow> pyobj list option" where
  "validate_list v [] = Some []"
| "validate_list v (x # xs) =
     (case v x of
        None \<Rightarrow> None
      | Some y \<Rightarrow> (case validate_list v xs of None \<Rightarrow> None | Some ys \<Rightarrow> Some (y # ys)))"

text \<open>
  \<open>ListModels\<close> is \<open>RootModel[list[model] | None]\<close>: \<open>null\<close> validates to the
  root \<open>None\<close>, an array to the list of its validated elements, anything else fails.
\<close>

definition parse_list_models :: "pydantic \<Rightarrow> model option \<Rightarrow> string \<Rightarrow> error + pyobj" where
  "parse_list_models P m s =
     (case from_json P s of
        None \<Rightarrow> Inl ValidationError
      | Some JNull \<Rightarrow> Inr PyNone
      | Some (JArr xs) \<Rightarrow>
          (case validate_list (validate_elem P m) xs of
             None \<Rightarrow> Inl ValidationError
           | Some ys \<Rightarrow> Inr (PyList ys))
      | Some _ \<Rightarrow> Inl ValidationError)"

section \<open>Generic request execution: \<open>LearnifyAPI.request\<close>\<close>

text \<open>
  The arguments of \<open>request\<close>; \<open>kw_params\<close> and \<open>kw_json\<close> are the two keyword
  arguments the resource operations pass through \<open>**kwargs\<close>. \<open>request_args\<close> gives
  every optional argument its default.
\<close>

record req_args =
  http_method :: string
  path :: string
  custom_headers :: "pyval dict option"
  model :: "model option"
  is_list :: bool
  return_json :: bool
  return_raw_text :: bool
  required_token :: bool
  return_raw_response :: bool
  kw_params :: "pyval dict"
  kw_json :: "pyval dict option"

definition request_args :: "string \<Rightarrow> string \<Rightarrow> req_args" where
  "request_args m p =
     \<lparr>http_method = m, path = p, custom_headers = None, model = None, is_list = False,
      return_json = False, return_raw_text = False, required_token = True,
      return_raw_response = False, kw_params = [], kw_json = None\<rparr>"

text \<open>The decoding of a non-empty body: the conditional expression of the source.\<close>

definition decode :: "pydantic \<Rightarrow> req_args \<Rightarrow> response \<Rightarrow> error + pyobj" where
  "decode P a r =
     (if return_raw_response a then Inr (PyResponse r)
      else if return_json a then (case json_result r of Inl e \<Rightarrow> Inl e | Inr j \<Rightarrow> Inr (PyJson j))
      else if return_raw_text a then Inr (PyText (raw_text r))
      else if is_list a then parse_list_models P (model a) (raw_text r)
      else (case model a of
              Some m \<Rightarrow> model_validate_json P m (raw_text r)
            | None \<Rightarrow> Inr (PyText (raw_text r))))"

text \<open>
  \<open>request\<close> returns or raises, and leaves the client in the state of the second
  component. \<open>server\<close> is the remote end: the response to each dispatched request.
  The URL and the headers are the arguments of \<open>session.request\<close> and are evaluated
  before it is called; the caller's \<open>custom_headers\<close> object is changed as
  \<open>headers\<close> says.
\<close>

definition request :: "(http_request \<Rightarrow> response) \<Rightarrow> pydantic \<Rightarrow> client \<Rightarrow> req_args \<Rightarrow> (error + pyobj) \<times> client" where
  "request server P self a =
     (case session self of
        None \<Rightarrow>
          (Inl (RuntimeError ''Session not initialized. Use `async with AsyncAPIClient(...)` or call `await client.__aenter__()`.''), self)
      | Some s \<Rightarrow>
          (let url = init_params (base_url self @ path a) (kw_params a) in
           case fst (headers self (required_token a) (custom_headers a)) of
             Inl e \<Rightarrow> (Inl e, self)
           | Inr hs \<Rightarrow>
               (let rq = \<lparr>rq_method = http_method a, rq_url = url, rq_headers = hs, rq_json = kw_json a\<rparr>;
                    self' = self\<lparr>session := Some (s\<lparr>dispatched := dispatched s @ [rq]\<rparr>)\<rparr>;
                    r = server rq
                in case check_response r of
                     Inl e \<Rightarrow> (Inl e, self')
                   | Inr _ \<Rightarrow>
                       if raw_text r = [] then (Inr PyNone, self')
                       else (decode P a r, self'))))"

section \<open>Resource operations\<close>

text \<open>A \<open>datetime.date\<close> and its \<open>isoformat()\<close>, \<open>"%04d-%02d-%02d"\<close>.\<close>

record date =
  year :: nat
  month :: nat
  day :: nat


definition zfill :: "nat \<Rightarrow> string \<Rightarrow> string" where
  "zfill w s = replicate (w - length s) CHR ''0'' @ s"

definition isoformat :: "date \<Rightarrow> string" where
  "isoformat d =
     zfill 4 (str_of_nat (year d)) @ ''-'' @ zfill 2 (str_of_nat (month d)) @ ''-'' @ zfill 2 (str_of_nat (day d))"

text \<open>\<open>if x is not None: body[k] = f(x)\<close>\<close>

definition set_if_given :: "string \<Rightarrow> ('a \<Rightarrow> pyval) \<Rightarrow> 'a option \<Rightarrow> pyval dict \<Rightarrow> pyval dict" where
  "set_if_given k f x body = (case x of None \<Rightarrow> body | Some y \<Rightarrow> dict_set k (f y) body)"



definition update_user_body :: "date option \<Rightarrow> string option \<Rightarrow> bool option \<Rightarrow> pyval dict" where
  "update_user_body expires_at plan_type is_active =
     set_if_given ''is_active'' VBool is_active
       (set_if_given ''plan_type'' VStr plan_type
          (set_if_given ''expires_at'' (\<lambda>d. VStr (isoformat d)) expires_at []))"

definition update_user :: "(http_request \<Rightarrow> response) \<Rightarrow> pydantic \<Rightarrow> client \<Rightarrow> int \<Rightarrow> date option \<Rightarrow> string option
    \<Rightarrow> bool option \<Rightarrow> (error + pyobj) \<times> client" where
  "update_user server P self user_id expires_at plan_type is_active =
     (let body = update_user_body expires_at plan_type is_active in
      if body = [] then (Inl (ValueError ''No fields provided for update''), self)
      else request server P self
             ((request_args ''PUT'' (''/premium/users/'' @ str_of_int user_id))
                \<lparr>kw_json := Some body, model := Some User\<rparr>))"

definition update_book_body :: "string option \<Rightarrow> int option \<Rightarrow> string option \<Rightarrow> string option \<Rightarrow> pyval dict" where
  "update_book_body url subject_id subject_name search_by =
     set_if_given ''search_by'' VStr search_by
       (set_if_given ''subject_name'' VStr subject_name
          (set_if_given ''subject_id'' VInt subject_id
             (set_if_given ''url'' VStr url [])))"

definition update_book :: "(http_request \<Rightarrow> response) \<Rightarrow> pydantic \<Rightarrow> client \<Rightarrow> int \<Rightarrow> int \<Rightarrow> string option \<Rightarrow> int option
    \<Rightarrow> string option \<Rightarrow> string option \<Rightarrow> (error + pyobj) \<times> client" where
  "update_book server P self user_id book_id url subject_id subject_name search_by =
     (let body = update_book_body url subject_id subject_name search_by in
      if body = [] then (Inl (ValueError ''No fields provided for update''), self)
      else request server P self
             ((request_args ''PUT'' (''/premium/gdz/books/'' @ str_of_int book_id))
                \<lparr>kw_json := Some body, model := Some Book, kw_params := [(''user_id'', VInt user_id)]\<rparr>))"

section \<open>Values for the examples\<close>

text \<open>
  A validator for \<open>Book\<close>: the field declarations of \<open>gdz.py\<close> read strictly. All
  six keys are required (none has a default), \<open>subject_id\<close> and \<open>subject_name\<close> may
  be \<open>null\<close>, other keys are ignored.
\<close>

definition as_int :: "json \<Rightarrow> int option" where
  "as_int j = (case j of JInt i \<Rightarrow> Some i | _ \<Rightarrow> None)"

definition as_str :: "json \<Rightarrow> string option" where
  "as_str j = (case j of JStr s \<Rightarrow> Some s | _ \<Rightarrow> None)"

definition nullable :: "(json \<Rightarrow> 'a option) \<Rightarrow> json \<Rightarrow> 'a option option" where
  "nullable f j = (case j of JNull \<Rightarrow> Some None | _ \<Rightarrow> map_option Some (f j))"

definition field :: "(string \<times> json) list \<Rightarrow> string \<Rightarrow> (json \<Rightarrow> 'a option) \<Rightarrow> 'a option" where
  "field d k f = Option.bind (dict_get d k) f"

definition strict_book :: "json \<Rightarrow> book option" where
  "strict_book j =
     (case j of
        JObj d \<Rightarrow>
          Option.bind (field d ''id'' as_int) (\<lambda>i.
          Option.bind (field d ''user_id'' as_int) (\<lambda>u.
          Option.bind (field d ''subject_id'' (nullable as_int)) (\<lambda>sid.
          Option.bind (field d ''subject_name'' (nullable as_str)) (\<lambda>sn.
          Option.bind (field d ''url'' as_str) (\<lambda>url.
          Option.bind (field d ''search_by'' as_str) (\<lambda>sb.
            Some \<lparr>b_id = i, b_user_id = u, b_subject_id = sid, b_subject_name = sn,
                  b_url = url, b_search_by = sb\<rparr>))))))
      | _ \<Rightarrow> None)"

text \<open>
  A response body with two books and its document, a reader that knows the bodies of the
  examples, a client inside its \<open>async with\<close> block with the headers it sends, and a
  server that answers every request with the same response.
\<close>

definition two_books_text :: string where
  \<open>two_books_text = ''[{"id":2,"user_id":7,"subject_id":null,"subject_name":"algebra","url":"https://gdz.example/a","search_by":"number"},{"id":1,"user_id":7,"subject_id":33,"subject_name":null,"url":"https://gdz.example/b","search_by":"page"}]''\<close>

definition book_a_json :: json where
  "book_a_json = JObj [(''id'', JInt 2), (''user_id'', JInt 7), (''subject_id'', JNull),
     (''subject_name'', JStr ''algebra''), (''url'', JStr ''https://gdz.example/a''), (''search_by'', JStr ''number'')]"

definition book_b_json :: json where
  "book_b_json = JObj [(''id'', JInt 1), (''user_id'', JInt 7), (''subject_id'', JInt 33),
     (''subject_name'', JNull), (''url'', JStr ''https://gdz.example/b''), (''search_by'', JStr ''page'')]"

definition book_a :: book where
  "book_a = \<lparr>b_id = 2, b_user_id = 7, b_subject_id = None, b_subject_name = Some ''algebra'',
             b_url = ''https://gdz.example/a'', b_search_by = ''number''\<rparr>"

definition book_b :: book where
  "book_b = \<lparr>b_id = 1, b_user_id = 7, b_subject_id = Some 33, b_subject_name = None,
             b_url = ''https://gdz.example/b'', b_search_by = ''page''\<rparr>"

definition example_pydantic :: pydantic where
  "example_pydantic =
     \<lparr>from_json = map_of [(two_books_text, JArr [book_a_json, book_b_json]),
                          (''null'', JNull), (''[1]'', JArr [JInt 1])],
      validate_user = (\<lambda>j. None),
      validate_book = strict_book,
      validate_answer = (\<lambda>j. None)\<rparr>"


definition example_client :: client where
  "example_client = aenter (LearnifyAPI ''t0k'' ''https://learnify.mag329.tech/api/v1/'')"

definition example_headers :: "pyval dict" where
  "example_headers = HEADERS @ [(''Authorization'', VStr ''Bearer t0k'')]"

definition reply :: "response \<Rightarrow> http_request \<Rightarrow> response" where
  "reply r rq = r"

section \<open>Properties\<close>

subsection \<open>Query parameters\<close>

lemma str_of_nat_digit: "n < 10 \<Longrightarrow> str_of_nat n = [digit_char n]"
  by (simp add: str_of_nat.simps)

text \<open>
  Claim C2, at a boolean parameter: the encoder is asked for \<open>a=true\<close> and writes
  \<open>a=True\<close>, since a bool passes the \<open>(str, float, int)\<close> test first and the
  \<open>boolean\<close> table is never consulted.
\<close>

theorem init_params_bool_rendering:
  "init_params ''/premium/gdz/books/search'' [(''flag'', VBool True)] = ''/premium/gdz/books/search?flag=True''
   \<and> init_params ''/premium/gdz/books/search'' [(''flag'', VBool True)] \<noteq> ''/premium/gdz/books/search?flag=true''"
  by (simp add: init_params_def rendered_params_def render_param_def)

subsection \<open>Header construction\<close>

lemma dict_set_append_notin:
  "k \<notin> fst ` set xs \<Longrightarrow> dict_set k v (xs @ ys) = xs @ dict_set k v ys"
  by (induction xs) auto

lemma dict_del_notin: "k \<notin> fst ` set xs \<Longrightarrow> dict_del k xs = xs"
  by (induction xs) (auto simp: dict_del_def)

lemma dict_del_append: "dict_del k (xs @ ys) = dict_del k xs @ dict_del k ys"
  by (simp add: dict_del_def)

lemma is_str_py_str: "is_str v \<Longrightarrow> VStr (py_str v) = v"
  by (cases v) auto

lemma keys_cleaned: "fst ` set (cleaned d) \<subseteq> fst ` set d"
  by (force simp: cleaned_def)

lemma fold_clean_step:
  "distinct (map fst (pre @ xs)) \<Longrightarrow> fold clean_step xs (cleaned pre @ xs) = cleaned (pre @ xs)"
proof (induction xs arbitrary: pre)
  case Nil
  then show ?case by simp
next
  case (Cons p xs)
  obtain k v where p: "p = (k, v)" by (cases p)
  from Cons.prems have notin_pre: "k \<notin> fst ` set pre" and notin_xs: "k \<notin> fst ` set xs"
    by (auto simp: p)
  have notin_cl: "k \<notin> fst ` set (cleaned pre)"
    using notin_pre keys_cleaned by blast
  have step: "clean_step p (cleaned pre @ p # xs) = cleaned (pre @ [p]) @ xs"
  proof (cases "v = VNone")
    case True
    have "dict_del k (cleaned pre @ p # xs) = cleaned pre @ xs"
      using notin_cl notin_xs
      using dict_del_append [of k "cleaned pre" "p # xs"] dict_del_notin [of k "cleaned pre"]
        dict_del_notin [of k xs]
      by (simp add: dict_del_def p)
    moreover have "cleaned (pre @ [p]) = cleaned pre"
      using True by (simp add: cleaned_def p)
    ultimately show ?thesis
      using True by (simp add: clean_step_def p)
  next
    case False
    then show ?thesis
      using notin_cl
      by (cases "is_str v") (simp_all add: clean_step_def p dict_set_append_notin cleaned_def is_str_py_str)
  qed
  from Cons.prems have "distinct (map fst ((pre @ [p]) @ xs))" by simp
  from Cons.IH [OF this] step show ?case by simp
qed

lemma clean_custom_Some:
  "distinct (map fst d) \<Longrightarrow> clean_custom (Some d) = Some (cleaned d)"
  using fold_clean_step [of "[]" d] by (auto simp: clean_custom_def cleaned_def)

lemma map_of_dict_set: "map_of (dict_set k v d) = (map_of d)(k \<mapsto> v)"
  by (induction d) auto

lemma keys_dict_set: "fst ` set (dict_set k v d) = insert k (fst ` set d)"
  by (induction d) auto

lemma dict_get_update:
  "distinct (map fst other) \<Longrightarrow>
   dict_get (dict_update d other) k = (case dict_get other k of Some v \<Rightarrow> Some v | None \<Rightarrow> dict_get d k)"
proof (induction other arbitrary: d)
  case Nil
  then show ?case by (simp add: dict_update_def dict_get_def)
next
  case (Cons p ps)
  from Cons.prems have d: "distinct (map fst ps)" and n: "fst p \<notin> fst ` set ps" by auto
  have "dict_update d (p # ps) = dict_update (dict_set (fst p) (snd p) d) ps"
    by (simp add: dict_update_def)
  moreover have "map_of ps (fst p) = None" using n by (simp add: map_of_eq_None_iff)
  ultimately show ?case
    using Cons.IH [OF d, of "dict_set (fst p) (snd p) d"]
    by (cases p) (auto simp: dict_get_def map_of_dict_set split: option.splits)
qed

lemma keys_dict_update: "fst ` set (dict_update d other) = fst ` set d \<union> fst ` set other"
  unfolding dict_update_def
  by (induction other arbitrary: d) (auto simp: keys_dict_set)

lemma dict_get_cleaned:
  "distinct (map fst d) \<Longrightarrow>
   dict_get (cleaned d) k =
     (case dict_get d k of None \<Rightarrow> None | Some v \<Rightarrow> if v = VNone then None else Some (VStr (py_str v)))"
proof (induction d)
  case Nil
  then show ?case by (simp add: cleaned_def dict_get_def)
next
  case (Cons p ps)
  obtain k' v' where p: "p = (k', v')" by (cases p)
  from Cons.prems have n: "k' \<notin> fst ` set ps" and d: "distinct (map fst ps)" by (auto simp: p)
  have c: "cleaned ((k', v') # ps) = (if v' = VNone then cleaned ps else (k', VStr (py_str v')) # cleaned ps)"
    by (simp add: cleaned_def)
  show ?case
  proof (cases "k = k'")
    case True
    have "k' \<notin> fst ` set (cleaned ps)" using n keys_cleaned by blast
    then have "map_of (cleaned ps) k' = None" by (simp add: map_of_eq_None_iff)
    then show ?thesis using True by (simp add: c dict_get_def p)
  next
    case False
    then show ?thesis using Cons.IH [OF d] by (simp add: c dict_get_def p)
  qed
qed

lemma cleaned_values: "p \<in> set (cleaned d) \<Longrightarrow> is_str (snd p)"
  by (auto simp: cleaned_def)

lemma cleaned_neq:
  assumes "p \<in> set d" and "snd p = VNone \<or> \<not> is_str (snd p)"
  shows "cleaned d \<noteq> d"
proof
  assume eq: "cleaned d = d"
  then have "p \<in> set (cleaned d)" using assms(1) by simp
  then have "is_str (snd p)" by (rule cleaned_values)
  then show False using assms(2) by (cases "snd p") auto
qed

text \<open>
  Claim C10: \<open>headers\<close> changes the caller's \<open>custom_headers\<close> dict in place. After
  the call the dict holds the entries whose value was not \<open>None\<close>, each with its value
  in string form; so a key given with \<open>None\<close> is gone, a value that was not a string
  has become its string form, and the dict differs from the one passed in whenever it
  held such an entry. This holds whether \<open>headers\<close> returns or raises.
\<close>

theorem headers_mutates_custom_headers:
  assumes "distinct (map fst d)"
  shows "snd (headers self rt (Some d)) = Some (cleaned d)
     \<and> (\<forall>k. dict_get (cleaned d) k =
           (case dict_get d k of None \<Rightarrow> None
            | Some v \<Rightarrow> if v = VNone then None else Some (VStr (py_str v))))
     \<and> ((\<exists>p \<in> set d. snd p = VNone \<or> \<not> is_str (snd p)) \<longrightarrow> snd (headers self rt (Some d)) \<noteq> Some d)"
proof -
  have a: "snd (headers self rt (Some d)) = Some (cleaned d)"
    using clean_custom_Some [OF assms] by (simp add: headers_def Let_def)
  have b: "\<forall>k. dict_get (cleaned d) k =
           (case dict_get d k of None \<Rightarrow> None
            | Some v \<Rightarrow> if v = VNone then None else Some (VStr (py_str v)))"
    using dict_get_cleaned [OF assms] by blast
  have c: "(\<exists>p \<in> set d. snd p = VNone \<or> \<not> is_str (snd p)) \<longrightarrow> snd (headers self rt (Some d)) \<noteq> Some d"
    using a cleaned_neq by auto
  from a b c show ?thesis by blast
qed

lemma digit_char_simps:
  "digit_char 0 = CHR ''0''" "digit_char 1 = CHR ''1''" "digit_char 2 = CHR ''2''"
  "digit_char 3 = CHR ''3''" "digit_char 4 = CHR ''4''" "digit_char 5 = CHR ''5''"
  "digit_char 6 = CHR ''6''" "digit_char 7 = CHR ''7''" "digit_char 8 = CHR ''8''"
  "digit_char 9 = CHR ''9''"
  unfolding digit_char_def by code_simp+

theorem headers_mutates_custom_headers_witness:
  "distinct (map fst [(''X-Trace'', VInt 7), (''X-Skip'', VNone), (''Accept'', VStr ''text/plain'')])
   \<and> snd (headers \<lparr>token = ''t0k'', base_url = ''https://host/api/v1'', session = None\<rparr> True
             (Some [(''X-Trace'', VInt 7), (''X-Skip'', VNone), (''Accept'', VStr ''text/plain'')]))
       = Some [(''X-Trace'', VStr ''7''), (''Accept'', VStr ''text/plain'')]
   \<and> snd (headers \<lparr>token = ''t0k'', base_url = ''https://host/api/v1'', session = None\<rparr> True
             (Some [(''X-Trace'', VInt 7), (''X-Skip'', VNone), (''Accept'', VStr ''text/plain'')]))
       \<noteq> Some [(''X-Trace'', VInt 7), (''X-Skip'', VNone), (''Accept'', VStr ''text/plain'')]"
proof -
  have d: "distinct (map fst [(''X-Trace'', VInt 7), (''X-Skip'', VNone), (''Accept'', VStr ''text/plain'')])"
    by simp
  show ?thesis
    using d headers_mutates_custom_headers [OF d, of "\<lparr>token = ''t0k'', base_url = ''https://host/api/v1'', session = None\<rparr>" True]
    by (simp add: cleaned_def str_of_int_def str_of_nat_digit digit_char_simps)
qed


lemma or_empty_clean_custom:
  "distinct (map fst (or_empty custom)) \<Longrightarrow> or_empty (clean_custom custom) = cleaned (or_empty custom)"
proof (cases custom)
  case None
  then show ?thesis by (simp add: or_empty_def clean_custom_def cleaned_def)
next
  case (Some d)
  assume "distinct (map fst (or_empty custom))"
  then have "distinct (map fst d)" by (simp add: Some or_empty_def)
  then show ?thesis using clean_custom_Some [of d] by (simp add: Some or_empty_def)
qed

lemma distinct_cleaned: "distinct (map fst d) \<Longrightarrow> distinct (map fst (cleaned d))"
  unfolding cleaned_def by (induction d) force+

lemma headers_ok:
  "\<not> (token self = [] \<and> rt) \<Longrightarrow>
   fst (headers self rt custom) =
     Inr (dict_update (if rt then dict_update HEADERS [(''Authorization'', VStr (''Bearer '' @ token self))] else HEADERS)
            (or_empty (clean_custom custom)))"
  by (auto simp: headers_def Let_def)

lemma headers_fail:
  "token self = [] \<and> rt \<Longrightarrow> fst (headers self rt custom) = Inl (ValueError ''Token is required!'')"
  by (simp add: headers_def Let_def)

lemma dict_get_with_auth:
  "dict_get (dict_update HEADERS [(''Authorization'', v)]) k =
     (if k = ''Authorization'' then Some v else dict_get HEADERS k)"
proof -
  have "dict_get [(''Authorization'', v)] k = (if k = ''Authorization'' then Some v else None)"
    by (simp add: dict_get_def)
  then show ?thesis
    using dict_get_update [of "[(''Authorization'', v)]" HEADERS k] by simp
qed

text \<open>
  Claim C5: whenever \<open>headers\<close> returns, the dict holds the five fixed base keys;
  looking a key up gives the caller's cleaned custom header when there is one, else
  \<open>Bearer <token>\<close> for \<open>Authorization\<close> when auth is required, else the fixed base
  value. With auth required and an empty token \<open>headers\<close> raises the
  \<open>ValueError\<close>, and \<open>request\<close> raises with the client, and so the list of
  dispatched requests, unchanged.
\<close>

theorem headers_construction:
  assumes "distinct (map fst (or_empty custom))"
  shows "map fst HEADERS = [''Content-Type'', ''Accept'', ''Accept-Language'', ''Accept-Encoding'', ''Connection'']
       \<and> (\<not> (token self = [] \<and> rt) \<longrightarrow>
           (\<exists>hs. fst (headers self rt custom) = Inr hs
              \<and> set (map fst HEADERS) \<subseteq> set (map fst hs)
              \<and> (\<forall>k. dict_get hs k =
                   (case dict_get (cleaned (or_empty custom)) k of
                      Some v \<Rightarrow> Some v
                    | None \<Rightarrow> if rt \<and> k = ''Authorization'' then Some (VStr (''Bearer '' @ token self))
                              else dict_get HEADERS k))))
       \<and> (token self = [] \<and> rt \<longrightarrow> fst (headers self rt custom) = Inl (ValueError ''Token is required!''))
       \<and> (token self = [] \<and> required_token a \<longrightarrow>
            snd (request server P self a) = self
            \<and> (\<exists>e. fst (request server P self a) = Inl e)
            \<and> (session self \<noteq> None \<longrightarrow> fst (request server P self a) = Inl (ValueError ''Token is required!'')))"
proof -
  let ?base = "if rt then dict_update HEADERS [(''Authorization'', VStr (''Bearer '' @ token self))] else HEADERS"
  let ?cl = "cleaned (or_empty custom)"
  have dcl: "distinct (map fst ?cl)" using assms by (rule distinct_cleaned)
  have zero: "map fst HEADERS = [''Content-Type'', ''Accept'', ''Accept-Language'', ''Accept-Encoding'', ''Connection'']"
    by (simp add: HEADERS_def)
  have one: "\<not> (token self = [] \<and> rt) \<longrightarrow>
           (\<exists>hs. fst (headers self rt custom) = Inr hs
              \<and> set (map fst HEADERS) \<subseteq> set (map fst hs)
              \<and> (\<forall>k. dict_get hs k =
                   (case dict_get ?cl k of
                      Some v \<Rightarrow> Some v
                    | None \<Rightarrow> if rt \<and> k = ''Authorization'' then Some (VStr (''Bearer '' @ token self))
                              else dict_get HEADERS k)))"
  proof
    assume ok: "\<not> (token self = [] \<and> rt)"
    have h: "fst (headers self rt custom) = Inr (dict_update ?base ?cl)"
      using headers_ok [OF ok, of custom] or_empty_clean_custom [OF assms] by simp
    have "fst ` set HEADERS \<subseteq> fst ` set (dict_update ?base ?cl)"
      by (cases rt) (auto simp: keys_dict_update)
    then have keys: "set (map fst HEADERS) \<subseteq> set (map fst (dict_update ?base ?cl))"
      by simp
    have look: "\<forall>k. dict_get (dict_update ?base ?cl) k =
                   (case dict_get ?cl k of
                      Some v \<Rightarrow> Some v
                    | None \<Rightarrow> if rt \<and> k = ''Authorization'' then Some (VStr (''Bearer '' @ token self))
                              else dict_get HEADERS k)"
    proof
      fix k
      show "dict_get (dict_update ?base ?cl) k =
                   (case dict_get ?cl k of
                      Some v \<Rightarrow> Some v
                    | None \<Rightarrow> if rt \<and> k = ''Authorization'' then Some (VStr (''Bearer '' @ token self))
                              else dict_get HEADERS k)"
        unfolding dict_get_update [OF dcl]
        by (cases rt; cases "dict_get ?cl k") (simp_all add: dict_get_with_auth)
    qed
    show "\<exists>hs. fst (headers self rt custom) = Inr hs
              \<and> set (map fst HEADERS) \<subseteq> set (map fst hs)
              \<and> (\<forall>k. dict_get hs k =
                   (case dict_get ?cl k of
                      Some v \<Rightarrow> Some v
                    | None \<Rightarrow> if rt \<and> k = ''Authorization'' then Some (VStr (''Bearer '' @ token self))
                              else dict_get HEADERS k))"
      using h keys look by (intro exI [where x = "dict_update ?base ?cl"] conjI)
  qed
  have two: "token self = [] \<and> rt \<longrightarrow> fst (headers self rt custom) = Inl (ValueError ''Token is required!'')"
    using headers_fail by blast
  have three: "token self = [] \<and> required_token a \<longrightarrow>
            snd (request server P self a) = self
            \<and> (\<exists>e. fst (request server P self a) = Inl e)
            \<and> (session self \<noteq> None \<longrightarrow> fst (request server P self a) = Inl (ValueError ''Token is required!''))"
    using headers_fail [of self "required_token a" "custom_headers a"]
    by (auto simp: request_def Let_def split: option.splits)
  show ?thesis by (rule conjI [OF zero conjI [OF one conjI [OF two three]]])
qed

theorem headers_construction_witness:
  "distinct (map fst (or_empty (Some [(''X-Trace'', VInt 7), (''Accept'', VStr ''text/plain''), (''X-Skip'', VNone)])))
   \<and> fst (headers \<lparr>token = ''t0k'', base_url = ''https://host/api/v1'', session = None\<rparr> True
            (Some [(''X-Trace'', VInt 7), (''Accept'', VStr ''text/plain''), (''X-Skip'', VNone)]))
       = Inr [(''Content-Type'', VStr ''application/json''),
              (''Accept'', VStr ''text/plain''),
              (''Accept-Language'', VStr ''ru-RU,ru;q=0.8,en-US;q=0.5,en;q=0.3''),
              (''Accept-Encoding'', VStr ''gzip, deflate, br''),
              (''Connection'', VStr ''keep-alive''),
              (''Authorization'', VStr ''Bearer t0k''),
              (''X-Trace'', VStr ''7'')]
   \<and> fst (headers \<lparr>token = '''', base_url = ''https://host/api/v1'', session = None\<rparr> True
            (Some [(''X-Trace'', VInt 7), (''Accept'', VStr ''text/plain''), (''X-Skip'', VNone)]))
       = Inl (ValueError ''Token is required!'')"
proof -
  have d: "distinct (map fst (or_empty (Some [(''X-Trace'', VInt 7), (''Accept'', VStr ''text/plain''), (''X-Skip'', VNone)])))"
    by (simp add: or_empty_def)
  have ok: "\<not> (token \<lparr>token = ''t0k'', base_url = ''https://host/api/v1'', session = None\<rparr> = [] \<and> True)"
    by simp
  have bad: "token \<lparr>token = '''', base_url = ''https://host/api/v1'', session = None\<rparr> = [] \<and> True"
    by simp
  have a: "fst (headers \<lparr>token = ''t0k'', base_url = ''https://host/api/v1'', session = None\<rparr> True
            (Some [(''X-Trace'', VInt 7), (''Accept'', VStr ''text/plain''), (''X-Skip'', VNone)]))
       = Inr [(''Content-Type'', VStr ''application/json''),
              (''Accept'', VStr ''text/plain''),
              (''Accept-Language'', VStr ''ru-RU,ru;q=0.8,en-US;q=0.5,en;q=0.3''),
              (''Accept-Encoding'', VStr ''gzip, deflate, br''),
              (''Connection'', VStr ''keep-alive''),
              (''Authorization'', VStr ''Bearer t0k''),
              (''X-Trace'', VStr ''7'')]"
    by (simp add: headers_def Let_def clean_custom_def clean_step_def dict_del_def dict_update_def
        or_empty_def HEADERS_def str_of_int_def str_of_nat_digit digit_char_simps)
  have b: "fst (headers \<lparr>token = '''', base_url = ''https://host/api/v1'', session = None\<rparr> True
            (Some [(''X-Trace'', VInt 7), (''Accept'', VStr ''text/plain''), (''X-Skip'', VNone)]))
       = Inl (ValueError ''Token is required!'')"
    using headers_construction [OF d, of "\<lparr>token = '''', base_url = ''https://host/api/v1'', session = None\<rparr>" True] bad
    by blast
  show ?thesis by (rule conjI [OF d conjI [OF a b]])
qed

subsection \<open>The status check and the decode modes\<close>

lemma request_sent:
  assumes "session self = Some s"
    and "fst (headers self (required_token a) (custom_headers a)) = Inr hs"
    and "r = server \<lparr>rq_method = http_method a, rq_url = init_params (base_url self @ path a) (kw_params a),
                     rq_headers = hs, rq_json = kw_json a\<rparr>"
  shows "fst (request server P self a) =
           (case check_response r of
              Inl e \<Rightarrow> Inl e
            | Inr u \<Rightarrow> if raw_text r = [] then Inr PyNone else decode P a r)"
    and "snd (request server P self a) =
           self\<lparr>session := Some (s\<lparr>dispatched := dispatched s @
              [\<lparr>rq_method = http_method a, rq_url = init_params (base_url self @ path a) (kw_params a),
                rq_headers = hs, rq_json = kw_json a\<rparr>]\<rparr>)\<rparr>"
  using assms by (simp_all add: request_def Let_def split: sum.splits)

lemma check_response_ok: "status r < 400 \<Longrightarrow> check_response r = Inr ()"
  by (simp add: check_response_def)


text \<open>
  Claim C6: when the session has sent the request and the response has a status below 400
  and an empty body text, \<open>request\<close> returns \<open>None\<close>, whatever the decode flags
  and the schema are.
\<close>

theorem request_empty_body:
  assumes "session self = Some s"
    and "fst (headers self (required_token a) (custom_headers a)) = Inr hs"
    and "r = server \<lparr>rq_method = http_method a, rq_url = init_params (base_url self @ path a) (kw_params a),
                     rq_headers = hs, rq_json = kw_json a\<rparr>"
    and "status r < 400" and "raw_text r = []"
  shows "fst (request server P self a) = Inr PyNone"
  using request_sent(1) [where self = self and s = s and a = a and hs = hs and r = r and server = server and P = P] assms(1-3) check_response_ok [OF assms(4)] assms(5)
  by simp

text \<open>
  Claim C7: for a response with a status below 400 and a non-empty body, \<open>request\<close>
  returns by the first decode mode that applies: the raw response, else the parsed JSON,
  else the raw text, else the list of the schema, else one instance of the schema, else
  (no schema) the raw text.
\<close>

theorem request_decode_priority:
  assumes "session self = Some s"
    and "fst (headers self (required_token a) (custom_headers a)) = Inr hs"
    and "r = server \<lparr>rq_method = http_method a, rq_url = init_params (base_url self @ path a) (kw_params a),
                     rq_headers = hs, rq_json = kw_json a\<rparr>"
    and "status r < 400" and "raw_text r \<noteq> []"
  shows "fst (request server P self a) =
     (if return_raw_response a then Inr (PyResponse r)
      else if return_json a then (case json_result r of Inl e \<Rightarrow> Inl e | Inr j \<Rightarrow> Inr (PyJson j))
      else if return_raw_text a then Inr (PyText (raw_text r))
      else if is_list a then parse_list_models P (model a) (raw_text r)
      else if model a \<noteq> None then model_validate_json P (the (model a)) (raw_text r)
      else Inr (PyText (raw_text r)))"
  using request_sent(1) [where self = self and s = s and a = a and hs = hs and r = r and server = server and P = P] assms(1-3) check_response_ok [OF assms(4)] assms(5)
  by (auto simp: decode_def split: option.splits)


text \<open>
  Claim C4: \<open>update_user\<close> with \<open>expires_at\<close>, \<open>plan_type\<close> and
  \<open>is_active\<close> absent, and \<open>update_book\<close> with \<open>url\<close>, \<open>subject_id\<close>,
  \<open>subject_name\<close> and \<open>search_by\<close> absent, raise \<open>ValueError\<close> and leave the
  client, and with it the list of dispatched requests, as it was, whatever the server,
  the token and the session are.
\<close>

theorem update_without_fields:
  "update_user server P self user_id None None None = (Inl (ValueError ''No fields provided for update''), self)
   \<and> update_book server P self user_id book_id None None None None
       = (Inl (ValueError ''No fields provided for update''), self)"
  by (simp add: update_user_def update_user_body_def update_book_def update_book_body_def set_if_given_def)

lemma example_client_eq:
  "example_client = \<lparr>token = ''t0k'', base_url = ''https://learnify.mag329.tech/api/v1'',
                      session = Some \<lparr>dispatched = []\<rparr>\<rparr>"
  by (simp add: example_client_def aenter_def LearnifyAPI_def rstrip_slash_def)

lemma example_headers_eq: "fst (headers example_client True None) = Inr example_headers"
  by (simp add: example_client_eq headers_def Let_def clean_custom_def or_empty_def dict_update_def
      HEADERS_def example_headers_def)

theorem request_empty_body_witness:
  "session example_client = Some \<lparr>dispatched = []\<rparr>
   \<and> fst (request (reply \<lparr>status = 204, raw_text = [], json_result = Inr JNull\<rparr>) example_pydantic example_client
            ((request_args ''DELETE'' ''/premium/users/42'')\<lparr>is_list := True, model := Some Book\<rparr>))
       = Inr PyNone"
proof -
  let ?a = "(request_args ''DELETE'' ''/premium/users/42'')\<lparr>is_list := True, model := Some Book\<rparr>"
  let ?r = "\<lparr>status = 204, raw_text = [], json_result = Inr JNull\<rparr>"
  have s: "session example_client = Some \<lparr>dispatched = []\<rparr>"
    by (simp add: example_client_eq)
  have h: "fst (headers example_client (required_token ?a) (custom_headers ?a)) = Inr example_headers"
    using example_headers_eq by (simp add: request_args_def)
  have r: "?r = reply ?r \<lparr>rq_method = http_method ?a,
               rq_url = init_params (base_url example_client @ path ?a) (kw_params ?a),
               rq_headers = example_headers, rq_json = kw_json ?a\<rparr>"
    by (simp add: reply_def)
  have "fst (request (reply ?r) example_pydantic example_client ?a) = Inr PyNone"
    using request_empty_body [where self = example_client and a = ?a and hs = example_headers
        and r = ?r and server = "reply ?r" and P = example_pydantic, OF s h r]
    by simp
  with s show ?thesis by simp
qed

theorem request_decode_priority_witness:
  "status \<lparr>status = 200, raw_text = ''[1]'', json_result = Inr (JArr [JInt 1])\<rparr> < 400
   \<and> fst (request (reply \<lparr>status = 200, raw_text = ''[1]'', json_result = Inr (JArr [JInt 1])\<rparr>)
            example_pydantic example_client
            ((request_args ''GET'' ''/premium/gdz/books/search'')
               \<lparr>return_json := True, return_raw_text := True, is_list := True, model := Some Book\<rparr>))
       = Inr (PyJson (JArr [JInt 1]))
   \<and> fst (request (reply \<lparr>status = 200, raw_text = ''[1]'', json_result = Inr (JArr [JInt 1])\<rparr>)
            example_pydantic example_client
            ((request_args ''GET'' ''/premium/gdz/books/search'')
               \<lparr>is_list := True, model := Some Book\<rparr>))
       = Inl ValidationError"
proof -
  let ?r = "\<lparr>status = 200, raw_text = ''[1]'', json_result = Inr (JArr [JInt 1])\<rparr>"
  let ?a = "(request_args ''GET'' ''/premium/gdz/books/search'')
               \<lparr>return_json := True, return_raw_text := True, is_list := True, model := Some Book\<rparr>"
  let ?b = "(request_args ''GET'' ''/premium/gdz/books/search'')\<lparr>is_list := True, model := Some Book\<rparr>"
  have s: "session example_client = Some \<lparr>dispatched = []\<rparr>"
    by (simp add: example_client_eq)
  have st: "status ?r < 400" and tx: "raw_text ?r \<noteq> []" by simp_all
  have ha: "fst (headers example_client (required_token ?a) (custom_headers ?a)) = Inr example_headers"
    using example_headers_eq by (simp add: request_args_def)
  have hb: "fst (headers example_client (required_token ?b) (custom_headers ?b)) = Inr example_headers"
    using example_headers_eq by (simp add: request_args_def)
  have ra: "?r = reply ?r \<lparr>rq_method = http_method ?a,
               rq_url = init_params (base_url example_client @ path ?a) (kw_params ?a),
               rq_headers = example_headers, rq_json = kw_json ?a\<rparr>"
    by (simp add: reply_def)
  have rb: "?r = reply ?r \<lparr>rq_method = http_method ?b,
               rq_url = init_params (base_url example_client @ path ?b) (kw_params ?b),
               rq_headers = example_headers, rq_json = kw_json ?b\<rparr>"
    by (simp add: reply_def)
  have a: "fst (request (reply ?r) example_pydantic example_client ?a) = Inr (PyJson (JArr [JInt 1]))"
    using request_decode_priority [where self = example_client and a = ?a and hs = example_headers
        and r = ?r and server = "reply ?r" and P = example_pydantic, OF s ha ra st tx]
    by (simp add: request_args_def)
  have "parse_list_models example_pydantic (Some Book) ''[1]'' = Inl ValidationError"
    by (simp add: parse_list_models_def example_pydantic_def two_books_text_def validate_elem_def
        validate_def strict_book_def)
  then have b: "fst (request (reply ?r) example_pydantic example_client ?b) = Inl ValidationError"
    using request_decode_priority [where self = example_client and a = ?b and hs = example_headers
        and r = ?r and server = "reply ?r" and P = example_pydantic, OF s hb rb st tx]
    by (simp add: request_args_def)
  show ?thesis by (rule conjI [OF st conjI [OF a b]])
qed



text \<open>
  Claim C1, at a status 500 response whose body is not JSON (and at one without a JSON
  content type): the handler of the \<open>except\<close> clause reads the unbound
  \<open>json_response\<close>, so the check, and \<open>request\<close> with it, raises
  \<open>UnboundLocalError\<close> and no \<open>APIError\<close> carrying the status.
\<close>

theorem check_response_non_json_500:
  "check_response \<lparr>status = 500, raw_text = ''Internal Server Error'', json_result = Inl JSONDecodeError\<rparr>
     = Inl (UnboundLocalError ''json_response'')
   \<and> check_response \<lparr>status = 500, raw_text = ''Internal Server Error'', json_result = Inl ContentTypeError\<rparr>
     = Inl (UnboundLocalError ''json_response'')
   \<and> fst (request (reply \<lparr>status = 500, raw_text = ''Internal Server Error'', json_result = Inl JSONDecodeError\<rparr>)
            example_pydantic example_client
            ((request_args ''GET'' ''/premium/users/42'')\<lparr>model := Some User\<rparr>))
     = Inl (UnboundLocalError ''json_response'')"
  by (simp add: check_response_def request_def Let_def example_client_eq headers_def clean_custom_def
      or_empty_def reply_def request_args_def)

subsection \<open>List decoding\<close>

lemma validate_list_all:
  "list_all (\<lambda>x. v x \<noteq> None) xs \<Longrightarrow> validate_list v xs = Some (map (\<lambda>x. the (v x)) xs)"
  by (induction xs) auto

lemma validate_list_some:
  "\<not> list_all (\<lambda>x. v x \<noteq> None) xs \<Longrightarrow> validate_list v xs = None"
  by (induction xs) (auto split: option.splits)

lemma validate_elem_book:
  "validate_elem P (Some Book) x = map_option (\<lambda>b. PyInst (BookInst b)) (validate_book P x)"
  by (simp add: validate_elem_def validate_def option.map_comp comp_def)

text \<open>
  Claim C8, amended: when the body reads as a JSON array whose elements all validate
  against \<open>Book\<close>, list-decoding returns the list of the validated books, one for each
  element and in the order of the array; when some element does not validate it raises
  \<open>ValidationError\<close>; when the body reads as \<open>null\<close> it returns \<open>None\<close> and raises
  nothing.
\<close>

theorem parse_list_models_book:
  "(from_json P s = Some (JArr xs) \<and> list_all (\<lambda>x. validate_book P x \<noteq> None) xs \<longrightarrow>
      parse_list_models P (Some Book) s
        = Inr (PyList (map (\<lambda>x. PyInst (BookInst (the (validate_book P x)))) xs)))
   \<and> (from_json P s = Some (JArr xs) \<and> \<not> list_all (\<lambda>x. validate_book P x \<noteq> None) xs \<longrightarrow>
      parse_list_models P (Some Book) s = Inl ValidationError)
   \<and> (from_json P s = Some JNull \<longrightarrow> parse_list_models P (Some Book) s = Inr PyNone)"
proof -
  let ?v = "validate_elem P (Some Book)"
  have ok: "list_all (\<lambda>x. validate_book P x \<noteq> None) xs \<Longrightarrow>
      validate_list ?v xs = Some (map (\<lambda>x. PyInst (BookInst (the (validate_book P x)))) xs)"
  proof -
    assume a: "list_all (\<lambda>x. validate_book P x \<noteq> None) xs"
    then have "list_all (\<lambda>x. ?v x \<noteq> None) xs"
      by (simp add: validate_elem_book)
    then have "validate_list ?v xs = Some (map (\<lambda>x. the (?v x)) xs)"
      by (rule validate_list_all)
    moreover have "map (\<lambda>x. the (?v x)) xs = map (\<lambda>x. PyInst (BookInst (the (validate_book P x)))) xs"
      using a by (induction xs) (auto simp: validate_elem_book)
    ultimately show ?thesis by simp
  qed
  have bad: "\<not> list_all (\<lambda>x. validate_book P x \<noteq> None) xs \<Longrightarrow> validate_list ?v xs = None"
  proof -
    assume "\<not> list_all (\<lambda>x. validate_book P x \<noteq> None) xs"
    then have "\<not> list_all (\<lambda>x. ?v x \<noteq> None) xs"
      by (simp add: validate_elem_book)
    then show ?thesis by (rule validate_list_some)
  qed
  show ?thesis
    using ok bad by (auto simp: parse_list_models_def)
qed

text \<open>
  Claim C8 fails as stated for "every JSON array body": the array \<open>[1]\<close> holds no
  book, and list-decoding it against \<open>Book\<close> raises \<open>ValidationError\<close>.
\<close>

theorem parse_list_models_book_counterexample:
  "from_json example_pydantic ''[1]'' = Some (JArr [JInt 1])
   \<and> parse_list_models example_pydantic (Some Book) ''[1]'' = Inl ValidationError"
  by (simp add: parse_list_models_def example_pydantic_def two_books_text_def validate_elem_def
      validate_def strict_book_def)

lemma strict_book_a: "strict_book book_a_json = Some book_a"
  by (simp add: strict_book_def book_a_json_def book_a_def field_def dict_get_def as_int_def
      as_str_def nullable_def)

lemma strict_book_b: "strict_book book_b_json = Some book_b"
  by (simp add: strict_book_def book_b_json_def book_b_def field_def dict_get_def as_int_def
      as_str_def nullable_def)

theorem parse_list_models_book_witness:
  "from_json example_pydantic two_books_text = Some (JArr [book_a_json, book_b_json])
   \<and> list_all (\<lambda>x. validate_book example_pydantic x \<noteq> None) [book_a_json, book_b_json]
   \<and> parse_list_models example_pydantic (Some Book) two_books_text
       = Inr (PyList [PyInst (BookInst book_a), PyInst (BookInst book_b)])
   \<and> from_json example_pydantic ''null'' = Some JNull
   \<and> parse_list_models example_pydantic (Some Book) ''null'' = Inr PyNone"
proof -
  have f: "from_json example_pydantic two_books_text = Some (JArr [book_a_json, book_b_json])"
    by (simp add: example_pydantic_def)
  have v: "list_all (\<lambda>x. validate_book example_pydantic x \<noteq> None) [book_a_json, book_b_json]"
    by (simp add: example_pydantic_def strict_book_a strict_book_b)
  have n: "from_json example_pydantic ''null'' = Some JNull"
    by (simp add: example_pydantic_def two_books_text_def)
  have vb: "validate_book example_pydantic = strict_book"
    by (simp add: example_pydantic_def)
  have a: "parse_list_models example_pydantic (Some Book) two_books_text
       = Inr (PyList [PyInst (BookInst book_a), PyInst (BookInst book_b)])"
    using parse_list_models_book [of example_pydantic two_books_text "[book_a_json, book_b_json]"] f v
    by (simp add: vb strict_book_a strict_book_b)
  have b: "parse_list_models example_pydantic (Some Book) ''null'' = Inr PyNone"
    using parse_list_models_book [of example_pydantic "''null''" "[]"] n by simp
  show ?thesis by (rule conjI [OF f conjI [OF v conjI [OF a conjI [OF n b]]]])
qed

subsection \<open>The body of \<open>create_user\<close>\<close>













end
